theory Spec2Isabelle
  imports Main
begin

section \<open>Callbacks and completions\<close>

text \<open>
  The stream core of the repository is the pair of classes \<open>Observer\<close> and \<open>Observable\<close>
  (the generic variant and \<open>src/app.ts\<close> agree on every method body). Everything the
  classes do is to call functions supplied by their clients: the three optional handlers,
  the producer stored in the Observable, and the teardown the producer returns.

  A client function is embedded as a HOL function on the world outside the core (console,
  counters, resources): it takes the world and returns the world it leaves, together with
  how it completed: normally, or by throwing. The core has no \<open>try\<close>/\<open>catch\<close>, so
  a thrown value leaves the running method at once and the fields assigned so far keep
  their values. Handlers and teardowns are first taken to act on the world only: they do
  not call the methods of the Observer that invokes them. A handler that is a closure over
  its Observer and calls its methods is the subject of the classes suffixed \<open>C\<close>
  below.
\<close>

datatype Error = Error string

datatype 'a completion = Normal 'a | Thrown Error

type_synonym 'w callback = "'w \<Rightarrow> unit completion \<times> 'w"

section \<open>The Observer class\<close>

text \<open>
  \<open>interface IObserverHandlers<T>\<close>: three optional members. The fields are suffixed
  because \<open>next\<close> is a keyword of the proof language.
\<close>

record ('v, 'w) IObserverHandlers =
  next_h :: "('v \<Rightarrow> 'w callback) option"
  error_h :: "(Error \<Rightarrow> 'w callback) option"
  complete_h :: "'w callback option"

text \<open>
  \<open>class Observer<T>\<close>: the private fields \<open>handlers\<close>, \<open>isUnsubscribed\<close> and
  \<open>_unsubscribe\<close> (here \<open>f_unsubscribe\<close>, since a name cannot start with an underscore).
\<close>

record ('v, 'w) Observer =
  handlers :: "('v, 'w) IObserverHandlers"
  isUnsubscribed :: bool
  f_unsubscribe :: "'w callback option"

type_synonym ('v, 'w) operation =
  "('v, 'w) Observer \<Rightarrow> 'w \<Rightarrow> unit completion \<times> ('v, 'w) Observer \<times> 'w"

text \<open>The constructor stores the handlers and clears the flag; the teardown slot is unset.\<close>

definition Observer_new :: "('v, 'w) IObserverHandlers \<Rightarrow> ('v, 'w) Observer" where
  "Observer_new hs = \<lparr>handlers = hs, isUnsubscribed = False, f_unsubscribe = None\<rparr>"

definition Observer_next :: "'v \<Rightarrow> ('v, 'w) operation" where
  "Observer_next v ob w =
     (case next_h (handlers ob) of
        Some h \<Rightarrow>
          if \<not> isUnsubscribed ob
          then (case h v w of (r, w') \<Rightarrow> (r, ob, w'))
          else (Normal (), ob, w)
      | None \<Rightarrow> (Normal (), ob, w))"

definition Observer_unsubscribe :: "('v, 'w) operation" where
  "Observer_unsubscribe ob w =
     (let ob' = ob\<lparr>isUnsubscribed := True\<rparr> in
      case f_unsubscribe ob' of
        Some f \<Rightarrow> (case f w of (r, w') \<Rightarrow> (r, ob', w'))
      | None \<Rightarrow> (Normal (), ob', w))"

definition Observer_error :: "Error \<Rightarrow> ('v, 'w) operation" where
  "Observer_error e ob w =
     (if \<not> isUnsubscribed ob then
        (case error_h (handlers ob) of
           Some h \<Rightarrow>
             (case h e w of
                (Normal _, w') \<Rightarrow> Observer_unsubscribe ob w'
              | (Thrown x, w') \<Rightarrow> (Thrown x, ob, w'))
         | None \<Rightarrow> Observer_unsubscribe ob w)
      else (Normal (), ob, w))"

definition Observer_complete :: "('v, 'w) operation" where
  "Observer_complete ob w =
     (if \<not> isUnsubscribed ob then
        (case complete_h (handlers ob) of
           Some h \<Rightarrow>
             (case h w of
                (Normal _, w') \<Rightarrow> Observer_unsubscribe ob w'
              | (Thrown x, w') \<Rightarrow> (Thrown x, ob, w'))
         | None \<Rightarrow> Observer_unsubscribe ob w)
      else (Normal (), ob, w))"

definition Observer_setUnsubscribe :: "'w callback option \<Rightarrow> ('v, 'w) operation" where
  "Observer_setUnsubscribe unsubscribeFn ob w =
     (Normal (), ob\<lparr>f_unsubscribe := unsubscribeFn\<rparr>, w)"

section \<open>Producers\<close>

text \<open>
  A producer is client code that receives the Observer and may call its five public
  methods, in any order and any number of times, look at the world and change it, catch
  what a call throws or let it pass, and finally return a value or throw. It is embedded
  as the tree of these steps; \<open>run_producer\<close> executes the tree on the Observer it is
  given. The continuation of \<open>Invoke\<close> receives the completion of the call, so that
  both a \<open>try\<close>/\<open>catch\<close> around the call and its absence (\<open>uncaught\<close>) are trees.
\<close>

datatype ('v, 'w) call =
    CallNext 'v
  | CallError Error
  | CallComplete
  | CallUnsubscribe
  | CallSetUnsubscribe "'w callback option"

definition Observer_call :: "('v, 'w) call \<Rightarrow> ('v, 'w) operation" where
  "Observer_call c =
     (case c of
        CallNext v \<Rightarrow> Observer_next v
      | CallError e \<Rightarrow> Observer_error e
      | CallComplete \<Rightarrow> Observer_complete
      | CallUnsubscribe \<Rightarrow> Observer_unsubscribe
      | CallSetUnsubscribe f \<Rightarrow> Observer_setUnsubscribe f)"

text \<open>
  What a producer returns: a function, \<open>undefined\<close>, or any other value
  (\<open>typeof\<close> is not \<open>"function"\<close>).
\<close>

datatype 'w jsvalue = Function "'w callback" | Undefined | NonFunction

datatype ('v, 'w) producer =
    Return "'w jsvalue"
  | Throw Error
  | Invoke "('v, 'w) call" "unit completion \<Rightarrow> ('v, 'w) producer"
  | Perform "'w \<Rightarrow> 'w" "('v, 'w) producer"
  | Inspect "'w \<Rightarrow> ('v, 'w) producer"

primrec run_producer ::
  "('v, 'w) producer \<Rightarrow> ('v, 'w) Observer \<Rightarrow> 'w \<Rightarrow>
     'w jsvalue completion \<times> ('v, 'w) Observer \<times> 'w" where
  "run_producer (Return x) ob w = (Normal x, ob, w)"
| "run_producer (Throw e) ob w = (Thrown e, ob, w)"
| "run_producer (Invoke c k) ob w =
     (case Observer_call c ob w of (r, ob', w') \<Rightarrow> run_producer (k r) ob' w')"
| "run_producer (Perform f p) ob w = run_producer p ob (f w)"
| "run_producer (Inspect g) ob w = run_producer (g w) ob w"

text \<open>A call outside any \<open>try\<close>: what it throws leaves the producer.\<close>

definition uncaught :: "('v, 'w) producer \<Rightarrow> unit completion \<Rightarrow> ('v, 'w) producer" where
  "uncaught p r = (case r of Normal _ \<Rightarrow> p | Thrown e \<Rightarrow> Throw e)"

text \<open>\<open>xs.forEach(f)\<close> followed by the rest of the function body.\<close>

primrec forEach ::
  "'a list \<Rightarrow> ('a \<Rightarrow> ('v, 'w) call) \<Rightarrow> ('v, 'w) producer \<Rightarrow> ('v, 'w) producer" where
  "forEach [] f rest = rest"
| "forEach (x # xs) f rest = Invoke (f x) (uncaught (forEach xs f rest))"

section \<open>The Observable class\<close>

text \<open>The world of the repository's own callbacks has a console.\<close>

record world =
  console :: "string list"

definition console_log :: "string \<Rightarrow> 'a world_scheme callback" where
  "console_log s w = (Normal (), w\<lparr>console := console w @ [s]\<rparr>)"

text \<open>\<open>class Observable<T>\<close> has the one field \<open>_subscribe\<close>.\<close>

record ('v, 'w) Observable =
  f_subscribe :: "('v, 'w) producer"

definition Observable_from :: "'v list \<Rightarrow> ('v, 'a world_scheme) Observable" where
  "Observable_from values =
     \<lparr>f_subscribe =
        forEach values (\<lambda>value. CallNext value)
          (Invoke CallComplete
            (uncaught (Return (Function (console_log ''unsubscribed'')))))\<rparr>"

text \<open>
  \<open>subscribe\<close> returns an object whose \<open>unsubscribe\<close> closes over the local
  \<open>observer\<close>. The Observers that such handles hold live in a heap; a handle is the
  index of its Observer. The producer runs on the new Observer before the handle exists.
\<close>

record ('v, 'w) state =
  heap :: "('v, 'w) Observer list"
  world :: 'w

record Subscription =
  observer_ref :: nat

definition Observable_subscribe ::
  "('v, 'w) Observable \<Rightarrow> ('v, 'w) IObserverHandlers \<Rightarrow> ('v, 'w) state \<Rightarrow>
     Subscription completion \<times> ('v, 'w) state" where
  "Observable_subscribe this obs s =
     (let observer = Observer_new obs in
      case run_producer (f_subscribe this) observer (world s) of
        (Thrown e, observer1, w1) \<Rightarrow> (Thrown e, s\<lparr>world := w1\<rparr>)
      | (Normal unsubscribeFn, observer1, w1) \<Rightarrow>
          (case Observer_setUnsubscribe
                  (case unsubscribeFn of Function f \<Rightarrow> Some f | _ \<Rightarrow> None)
                  observer1 w1 of
             (Thrown e, observer2, w2) \<Rightarrow> (Thrown e, s\<lparr>world := w2\<rparr>)
           | (Normal _, observer2, w2) \<Rightarrow>
               (Normal \<lparr>observer_ref = length (heap s)\<rparr>,
                \<lparr>heap = heap s @ [observer2], world = w2\<rparr>)))"

text \<open>
  The handle's \<open>unsubscribe\<close> calls \<open>observer.unsubscribe()\<close>. A handle that no
  \<open>subscribe\<close> of this state returned denotes no Observer: the result is \<open>None\<close>.
\<close>

definition Subscription_unsubscribe ::
  "Subscription \<Rightarrow> ('v, 'w) state \<Rightarrow> (unit completion \<times> ('v, 'w) state) option" where
  "Subscription_unsubscribe sub s =
     (let a = observer_ref sub in
      if a < length (heap s) then
        (case Observer_unsubscribe (heap s ! a) (world s) of
           (r, ob', w') \<Rightarrow> Some (r, \<lparr>heap = (heap s)[a := ob'], world = w'\<rparr>))
      else None)"

section \<open>Clients used in the examples\<close>

text \<open>Client code that calls \<open>unsubscribe()\<close> \<open>n\<close> times in a row.\<close>

definition unsubscribe_times :: "nat \<Rightarrow> ('v, 'w) producer" where
  "unsubscribe_times n = forEach (replicate n ()) (\<lambda>_. CallUnsubscribe) (Return Undefined)"

text \<open>
  Handlers that write what they receive to the console, the way the repository's
  \<open>handleComplete\<close> does, and the empty handler object.
\<close>

definition recording :: "(string, 'a world_scheme) IObserverHandlers" where
  "recording =
     \<lparr>next_h = Some (\<lambda>value. console_log value),
      error_h = Some (\<lambda>error. case error of Error message \<Rightarrow> console_log message),
      complete_h = Some (console_log ''complete'')\<rparr>"

definition no_handlers :: "('v, 'w) IObserverHandlers" where
  "no_handlers = \<lparr>next_h = None, error_h = None, complete_h = None\<rparr>"

text \<open>A producer that emits one value and returns \<open>x\<close> without terminating the Observer.\<close>

definition emit_one :: "'w jsvalue \<Rightarrow> (string, 'w) Observable" where
  "emit_one x = \<lparr>f_subscribe = Invoke (CallNext ''a'') (uncaught (Return x))\<rparr>"

section \<open>Handlers that call their Observer\<close>

text \<open>
  A handler can be a closure over the variable that holds its Observer, as in
  \<open>o = new Observer({next: v => o.unsubscribe()})\<close>, and then calls the methods of the
  Observer while \<open>next\<close>, \<open>error\<close> or \<open>complete\<close> is running it. Such a handler is
  client code like a producer, and is embedded as the tree of its steps. \<open>ObserverC\<close> is
  the class \<open>Observer\<close> with handlers of this kind; the teardown stays a world action.
  The method bodies are those of lines 24 to 57 again, with the handler's body run on the
  Observer: what its calls assign is there when the method goes on.
\<close>

record ('v, 'w) IObserverClosures =
  next_c :: "('v \<Rightarrow> ('v, 'w) producer) option"
  error_c :: "(Error \<Rightarrow> ('v, 'w) producer) option"
  complete_c :: "('v, 'w) producer option"

record ('v, 'w) ObserverC =
  handlersC :: "('v, 'w) IObserverClosures"
  isUnsubscribedC :: bool
  f_unsubscribeC :: "'w callback option"

text \<open>
  A handler that calls \<open>next\<close> on its own Observer recurses without end. The methods take
  the function that runs a handler body as a parameter, and \<open>ObserverC_call\<close> closes the
  recursion with a bound on the depth of calls made from inside handlers: the result is
  \<open>None\<close> when the bound is reached.
\<close>

type_synonym ('v, 'w) runner =
  "('v, 'w) producer \<Rightarrow> ('v, 'w) ObserverC \<Rightarrow> 'w \<Rightarrow>
     ('w jsvalue completion \<times> ('v, 'w) ObserverC \<times> 'w) option"

type_synonym ('v, 'w) operationC =
  "('v, 'w) ObserverC \<Rightarrow> 'w \<Rightarrow> (unit completion \<times> ('v, 'w) ObserverC \<times> 'w) option"

definition ObserverC_next :: "('v, 'w) runner \<Rightarrow> 'v \<Rightarrow> ('v, 'w) operationC" where
  "ObserverC_next run v ob w =
     (case next_c (handlersC ob) of
        Some body \<Rightarrow>
          if \<not> isUnsubscribedC ob
          then (case run (body v) ob w of
                  None \<Rightarrow> None
                | Some (Normal _, ob', w') \<Rightarrow> Some (Normal (), ob', w')
                | Some (Thrown x, ob', w') \<Rightarrow> Some (Thrown x, ob', w'))
          else Some (Normal (), ob, w)
      | None \<Rightarrow> Some (Normal (), ob, w))"

definition ObserverC_unsubscribe ::
  "('v, 'w) ObserverC \<Rightarrow> 'w \<Rightarrow> unit completion \<times> ('v, 'w) ObserverC \<times> 'w" where
  "ObserverC_unsubscribe ob w =
     (let ob' = ob\<lparr>isUnsubscribedC := True\<rparr> in
      case f_unsubscribeC ob' of
        Some f \<Rightarrow> (case f w of (r, w') \<Rightarrow> (r, ob', w'))
      | None \<Rightarrow> (Normal (), ob', w))"

definition ObserverC_error :: "('v, 'w) runner \<Rightarrow> Error \<Rightarrow> ('v, 'w) operationC" where
  "ObserverC_error run e ob w =
     (if \<not> isUnsubscribedC ob then
        (case error_c (handlersC ob) of
           Some body \<Rightarrow>
             (case run (body e) ob w of
                None \<Rightarrow> None
              | Some (Normal _, ob', w') \<Rightarrow> Some (ObserverC_unsubscribe ob' w')
              | Some (Thrown x, ob', w') \<Rightarrow> Some (Thrown x, ob', w'))
         | None \<Rightarrow> Some (ObserverC_unsubscribe ob w))
      else Some (Normal (), ob, w))"

definition ObserverC_complete :: "('v, 'w) runner \<Rightarrow> ('v, 'w) operationC" where
  "ObserverC_complete run ob w =
     (if \<not> isUnsubscribedC ob then
        (case complete_c (handlersC ob) of
           Some body \<Rightarrow>
             (case run body ob w of
                None \<Rightarrow> None
              | Some (Normal _, ob', w') \<Rightarrow> Some (ObserverC_unsubscribe ob' w')
              | Some (Thrown x, ob', w') \<Rightarrow> Some (Thrown x, ob', w'))
         | None \<Rightarrow> Some (ObserverC_unsubscribe ob w))
      else Some (Normal (), ob, w))"

definition ObserverC_setUnsubscribe ::
  "'w callback option \<Rightarrow> ('v, 'w) ObserverC \<Rightarrow> 'w \<Rightarrow>
     unit completion \<times> ('v, 'w) ObserverC \<times> 'w" where
  "ObserverC_setUnsubscribe unsubscribeFn ob w =
     (Normal (), ob\<lparr>f_unsubscribeC := unsubscribeFn\<rparr>, w)"

primrec run_closure ::
  "(('v, 'w) call \<Rightarrow> ('v, 'w) operationC) \<Rightarrow> ('v, 'w) runner" where
  "run_closure perform (Return x) ob w = Some (Normal x, ob, w)"
| "run_closure perform (Throw e) ob w = Some (Thrown e, ob, w)"
| "run_closure perform (Invoke c k) ob w =
     (case perform c ob w of
        None \<Rightarrow> None
      | Some (r, ob', w') \<Rightarrow> run_closure perform (k r) ob' w')"
| "run_closure perform (Perform f p) ob w = run_closure perform p ob (f w)"
| "run_closure perform (Inspect g) ob w = run_closure perform (g w) ob w"

primrec ObserverC_call :: "nat \<Rightarrow> ('v, 'w) call \<Rightarrow> ('v, 'w) operationC" where
  "ObserverC_call 0 c ob w = None"
| "ObserverC_call (Suc depth) c ob w =
     (case c of
        CallNext v \<Rightarrow> ObserverC_next (run_closure (ObserverC_call depth)) v ob w
      | CallError e \<Rightarrow> ObserverC_error (run_closure (ObserverC_call depth)) e ob w
      | CallComplete \<Rightarrow> ObserverC_complete (run_closure (ObserverC_call depth)) ob w
      | CallUnsubscribe \<Rightarrow> Some (ObserverC_unsubscribe ob w)
      | CallSetUnsubscribe f \<Rightarrow> Some (ObserverC_setUnsubscribe f ob w))"

text \<open>
  A handler that acts on the world only, as a handler body; the handler object and the
  Observer of the first embedding, as those of this one.
\<close>

definition of_callback :: "'w callback \<Rightarrow> ('v, 'w) producer" where
  "of_callback f =
     Inspect (\<lambda>w. case f w of
        (Normal _, w') \<Rightarrow> Perform (\<lambda>_. w') (Return Undefined)
      | (Thrown e, w') \<Rightarrow> Perform (\<lambda>_. w') (Throw e))"

definition closures_of :: "('v, 'w) IObserverHandlers \<Rightarrow> ('v, 'w) IObserverClosures" where
  "closures_of hs =
     \<lparr>next_c = map_option (\<lambda>h v. of_callback (h v)) (next_h hs),
      error_c = map_option (\<lambda>h e. of_callback (h e)) (error_h hs),
      complete_c = map_option of_callback (complete_h hs)\<rparr>"

definition closure_observer :: "('v, 'w) Observer \<Rightarrow> ('v, 'w) ObserverC" where
  "closure_observer ob =
     \<lparr>handlersC = closures_of (handlers ob), isUnsubscribedC = isUnsubscribed ob,
      f_unsubscribeC = f_unsubscribe ob\<rparr>"


text \<open>What no call changes: the handler object, and a flag that is set.\<close>

definition kept :: "('v, 'w) ObserverC \<Rightarrow> ('v, 'w) ObserverC \<Rightarrow> bool" where
  "kept ob ob' \<longleftrightarrow>
     handlersC ob' = handlersC ob \<and> (isUnsubscribedC ob \<longrightarrow> isUnsubscribedC ob')"

section \<open>The methods, case by case\<close>

lemma unsubscribe_result:
  "Observer_unsubscribe ob w =
     (case f_unsubscribe ob of
        None \<Rightarrow> (Normal (), ob\<lparr>isUnsubscribed := True\<rparr>, w)
      | Some td \<Rightarrow> (fst (td w), ob\<lparr>isUnsubscribed := True\<rparr>, snd (td w)))"
  by (simp add: Observer_unsubscribe_def Let_def split: option.split prod.split)

lemma unsubscribe_sets_flag:
  "Observer_unsubscribe ob w = (r, ob1, w1) \<Longrightarrow> isUnsubscribed ob1"
  by (auto simp: unsubscribe_result split: option.splits)

lemma next_when_unsubscribed:
  "isUnsubscribed ob \<Longrightarrow> Observer_next v ob w = (Normal (), ob, w)"
  by (simp add: Observer_next_def split: option.split)

lemma error_when_unsubscribed:
  "isUnsubscribed ob \<Longrightarrow> Observer_error e ob w = (Normal (), ob, w)"
  by (simp add: Observer_error_def)

lemma complete_when_unsubscribed:
  "isUnsubscribed ob \<Longrightarrow> Observer_complete ob w = (Normal (), ob, w)"
  by (simp add: Observer_complete_def)

lemma error_normal_sets_flag:
  "Observer_error e ob w = (Normal (), ob1, w1) \<Longrightarrow> isUnsubscribed ob1"
  by (auto simp: Observer_error_def split: if_splits option.splits prod.splits completion.splits
      dest: unsubscribe_sets_flag)

lemma complete_normal_sets_flag:
  "Observer_complete ob w = (Normal (), ob1, w1) \<Longrightarrow> isUnsubscribed ob1"
  by (auto simp: Observer_complete_def split: if_splits option.splits prod.splits completion.splits
      dest: unsubscribe_sets_flag)

lemma call_keeps_flag:
  "isUnsubscribed ob \<Longrightarrow> Observer_call c ob w = (r, ob1, w1) \<Longrightarrow> isUnsubscribed ob1"
  by (cases c)
    (auto simp: Observer_call_def next_when_unsubscribed error_when_unsubscribed
      complete_when_unsubscribed Observer_setUnsubscribe_def dest: unsubscribe_sets_flag)

lemma run_producer_keeps_flag:
  "isUnsubscribed ob \<Longrightarrow> run_producer p ob w = (r, ob1, w1) \<Longrightarrow> isUnsubscribed ob1"
proof (induction p arbitrary: ob w)
  case (Invoke c k)
  obtain r' ob' w' where step: "Observer_call c ob w = (r', ob', w')"
    by (cases "Observer_call c ob w") auto
  have "isUnsubscribed ob'"
    using Invoke.prems(1) step by (rule call_keeps_flag)
  moreover have "run_producer (k r') ob' w' = (r, ob1, w1)"
    using Invoke.prems(2) step by simp
  ultimately show ?case
    by (rule Invoke.IH [OF rangeI])
next
  case (Inspect g)
  from Inspect.prems show ?case
    by (auto intro: Inspect.IH [OF rangeI])
qed auto

lemma unsubscribe_times_Suc:
  "run_producer (unsubscribe_times (Suc n)) ob w =
     (case Observer_unsubscribe ob w of
        (Normal _, ob', w') \<Rightarrow> run_producer (unsubscribe_times n) ob' w'
      | (Thrown e, ob', w') \<Rightarrow> (Thrown e, ob', w'))"
  by (simp add: unsubscribe_times_def Observer_call_def uncaught_def
      split: prod.split completion.split)

lemma forEach_next_active:
  assumes active: "\<not> isUnsubscribed ob"
    and quiet: "\<forall>h v w. next_h (handlers ob) = Some h \<longrightarrow> fst (h v w) = Normal ()"
  shows "run_producer (forEach vs CallNext rest) ob w =
         run_producer rest ob
           (foldl (\<lambda>w v. case next_h (handlers ob) of None \<Rightarrow> w | Some h \<Rightarrow> snd (h v w))
              w vs)"
proof (induction vs arbitrary: w)
  case Nil
  show ?case by simp
next
  case (Cons v vs)
  show ?case
  proof (cases "next_h (handlers ob)")
    case None
    then show ?thesis
      using Cons.IH by (simp add: Observer_call_def Observer_next_def uncaught_def)
  next
    case (Some h)
    then have "fst (h v w) = Normal ()"
      using quiet by simp
    then obtain w' where "h v w = (Normal (), w')"
      by (cases "h v w") auto
    then show ?thesis
      using Some active Cons.IH
      by (simp add: Observer_call_def Observer_next_def uncaught_def)
  qed
qed

lemma subscribe_returned:
  assumes "run_producer (f_subscribe this) (Observer_new obs) (world s) = (Normal x, ob1, w1)"
  shows "Observable_subscribe this obs s =
     (Normal \<lparr>observer_ref = length (heap s)\<rparr>,
      \<lparr>heap = heap s @ [ob1\<lparr>f_unsubscribe := (case x of Function f \<Rightarrow> Some f | _ \<Rightarrow> None)\<rparr>],
       world = w1\<rparr>)"
  using assms by (simp add: Observable_subscribe_def Observer_setUnsubscribe_def)

lemma subscribe_threw:
  assumes "run_producer (f_subscribe this) (Observer_new obs) (world s) = (Thrown e, ob1, w1)"
  shows "Observable_subscribe this obs s = (Thrown e, s\<lparr>world := w1\<rparr>)"
  using assms by (simp add: Observable_subscribe_def)

lemma handle_unsubscribe_last:
  "Subscription_unsubscribe \<lparr>observer_ref = length h\<rparr> \<lparr>heap = h @ [ob], world = w\<rparr> =
     Some (fst (Observer_unsubscribe ob w),
           \<lparr>heap = h @ [fst (snd (Observer_unsubscribe ob w))],
            world = snd (snd (Observer_unsubscribe ob w))\<rparr>)"
  by (simp add: Subscription_unsubscribe_def split: prod.split)

lemma subscribe_allocates:
  assumes "Observable_subscribe this obs s = (Normal sub, s')"
  shows "\<exists>x ob w. run_producer (f_subscribe this) (Observer_new obs) (world s) = (Normal x, ob, w)
           \<and> sub = \<lparr>observer_ref = length (heap s)\<rparr>
           \<and> s' = \<lparr>heap = heap s @
                 [ob\<lparr>f_unsubscribe := (case x of Function f \<Rightarrow> Some f | _ \<Rightarrow> None)\<rparr>],
                 world = w\<rparr>"
  using assms
  by (auto simp: Observable_subscribe_def Observer_setUnsubscribe_def
      split: prod.splits completion.splits)

lemma handle_unsubscribe_frame:
  assumes "observer_ref sub < length (heap s)"
  shows "\<exists>r s'. Subscription_unsubscribe sub s = Some (r, s')
           \<and> length (heap s') = length (heap s)
           \<and> (\<forall>a. a \<noteq> observer_ref sub \<longrightarrow> heap s' ! a = heap s ! a)"
  using assms
  by (auto simp: Subscription_unsubscribe_def Let_def split: prod.split)

section \<open>Unsubscribing more than once\<close>

text \<open>
  C1, as the code has it. \<open>unsubscribe()\<close> is idempotent on the Observer itself: after
  \<open>n > 0\<close> calls the flag is set and handlers and teardown slot are as they were, the same
  as after one call. The registered teardown, however, runs at every call: \<open>n\<close> calls run
  it \<open>n\<close> times (here for a teardown that returns normally). With no teardown registered,
  the calls leave the world as it was.
\<close>

theorem unsubscribe_runs_teardown_every_call:
  assumes quiet: "\<forall>td w. f_unsubscribe ob = Some td \<longrightarrow> fst (td w) = Normal ()"
  shows "run_producer (unsubscribe_times n) ob w =
    (Normal Undefined,
     (if n = 0 then ob else ob\<lparr>isUnsubscribed := True\<rparr>),
     (case f_unsubscribe ob of None \<Rightarrow> w | Some td \<Rightarrow> ((\<lambda>w. snd (td w)) ^^ n) w))"
  using quiet
proof (induction n arbitrary: ob w)
  case 0
  show ?case
    by (simp add: unsubscribe_times_def split: option.split)
next
  case (Suc n)
  let ?ob = "ob\<lparr>isUnsubscribed := True\<rparr>"
  have q: "\<forall>td w. f_unsubscribe ?ob = Some td \<longrightarrow> fst (td w) = Normal ()"
    using Suc.prems by simp
  show ?case
  proof (cases "f_unsubscribe ob")
    case None
    then show ?thesis
      using Suc.IH [OF q]
      by (simp add: unsubscribe_times_Suc unsubscribe_result)
  next
    case (Some td)
    then have "fst (td w) = Normal ()"
      using Suc.prems by simp
    then show ?thesis
      using Suc.IH [OF q] Some funpow_swap1 [of "\<lambda>w. snd (td w)" n w]
      by (simp add: unsubscribe_times_Suc unsubscribe_result)
  qed
qed

text \<open>
  Two calls of \<open>unsubscribe()\<close> on an Observer whose teardown writes to the console leave
  two lines there: the teardown does not run exactly once in total.
\<close>

theorem unsubscribe_twice_runs_teardown_twice:
  "run_producer (unsubscribe_times 2)
     \<lparr>handlers = no_handlers, isUnsubscribed = False,
      f_unsubscribe = Some (console_log ''unsubscribed'')\<rparr>
     \<lparr>console = []\<rparr> =
   (Normal Undefined,
    \<lparr>handlers = no_handlers, isUnsubscribed = True,
      f_unsubscribe = Some (console_log ''unsubscribed'')\<rparr>,
    \<lparr>console = [''unsubscribed'', ''unsubscribed'']\<rparr>)"
  by (simp add: unsubscribe_times_def Observer_call_def Observer_unsubscribe_def
      uncaught_def console_log_def numeral_2_eq_2)

text \<open>Three calls, three runs of the teardown, one and the same Observer state.\<close>

theorem unsubscribe_runs_teardown_every_call_witness:
  "run_producer (unsubscribe_times 3)
     \<lparr>handlers = no_handlers, isUnsubscribed = False,
      f_unsubscribe = Some (console_log ''unsubscribed'')\<rparr>
     \<lparr>console = []\<rparr> =
   (Normal Undefined,
    \<lparr>handlers = no_handlers, isUnsubscribed = True,
      f_unsubscribe = Some (console_log ''unsubscribed'')\<rparr>,
    \<lparr>console = [''unsubscribed'', ''unsubscribed'', ''unsubscribed'']\<rparr>)"
  using unsubscribe_runs_teardown_every_call [of "\<lparr>handlers = no_handlers, isUnsubscribed = False,
      f_unsubscribe = Some (console_log ''unsubscribed'')\<rparr>" 3 "\<lparr>console = []\<rparr>"]
  by (simp add: console_log_def numeral_3_eq_3)

section \<open>The teardown a producer returns\<close>

text \<open>
  C2, as the code has it. When the producer returns a function, \<open>subscribe\<close> stores it in
  the teardown slot and does not invoke it, also when the run has already terminated the
  Observer: the world \<open>subscribe\<close> returns is the world the producer left. The teardown is
  not discarded either: the next \<open>unsubscribe()\<close> through the handle runs it.
\<close>

theorem returned_teardown_stored_until_unsubscribe:
  assumes "run_producer (f_subscribe this) (Observer_new obs) (world s) =
             (Normal (Function td), ob1, w1)"
  shows "Observable_subscribe this obs s =
           (Normal \<lparr>observer_ref = length (heap s)\<rparr>,
            \<lparr>heap = heap s @ [ob1\<lparr>f_unsubscribe := Some td\<rparr>], world = w1\<rparr>)
       \<and> Subscription_unsubscribe \<lparr>observer_ref = length (heap s)\<rparr>
           \<lparr>heap = heap s @ [ob1\<lparr>f_unsubscribe := Some td\<rparr>], world = w2\<rparr> =
           Some (fst (td w2),
                 \<lparr>heap = heap s @ [ob1\<lparr>isUnsubscribed := True, f_unsubscribe := Some td\<rparr>],
                  world = snd (td w2)\<rparr>)"
  using subscribe_returned [OF assms]
  by (simp add: handle_unsubscribe_last unsubscribe_result)

text \<open>
  \<open>from\<close> completes during the run and then returns its teardown. After \<open>subscribe\<close>
  the Observer is unsubscribed and holds the teardown, and the console is still empty: the
  teardown was not invoked when it was registered.
\<close>

theorem teardown_not_invoked_at_registration:
  "Observable_subscribe (Observable_from [''a'']) no_handlers
     \<lparr>heap = [], world = \<lparr>console = []\<rparr>\<rparr> =
   (Normal \<lparr>observer_ref = 0\<rparr>,
    \<lparr>heap = [\<lparr>handlers = no_handlers, isUnsubscribed = True,
              f_unsubscribe = Some (console_log ''unsubscribed'')\<rparr>],
     world = \<lparr>console = []\<rparr>\<rparr>)"
  by (simp add: Observable_subscribe_def Observable_from_def Observer_new_def no_handlers_def
      Observer_call_def Observer_next_def Observer_complete_def Observer_unsubscribe_def
      Observer_setUnsubscribe_def uncaught_def)

text \<open>The same run with handlers that write to the console, followed by \<open>unsubscribe()\<close>.\<close>

theorem returned_teardown_stored_until_unsubscribe_witness:
  "Observable_subscribe (Observable_from [''a'']) recording
     \<lparr>heap = [], world = \<lparr>console = []\<rparr>\<rparr> =
   (Normal \<lparr>observer_ref = 0\<rparr>,
    \<lparr>heap = [\<lparr>handlers = recording, isUnsubscribed = True,
              f_unsubscribe = Some (console_log ''unsubscribed'')\<rparr>],
     world = \<lparr>console = [''a'', ''complete'']\<rparr>\<rparr>)
 \<and> Subscription_unsubscribe \<lparr>observer_ref = 0\<rparr>
    \<lparr>heap = [\<lparr>handlers = recording, isUnsubscribed = True,
              f_unsubscribe = Some (console_log ''unsubscribed'')\<rparr>],
     world = \<lparr>console = [''a'', ''complete'']\<rparr>\<rparr> =
   Some (Normal (),
    \<lparr>heap = [\<lparr>handlers = recording, isUnsubscribed = True,
              f_unsubscribe = Some (console_log ''unsubscribed'')\<rparr>],
     world = \<lparr>console = [''a'', ''complete'', ''unsubscribed'']\<rparr>\<rparr>)"
proof -
  have run: "run_producer (f_subscribe (Observable_from [''a''])) (Observer_new recording)
      (world \<lparr>heap = [], world = \<lparr>console = []\<rparr>\<rparr>) =
    (Normal (Function (console_log ''unsubscribed'')),
     \<lparr>handlers = recording, isUnsubscribed = True, f_unsubscribe = None\<rparr>,
     \<lparr>console = [''a'', ''complete'']\<rparr>)"
    by (simp add: Observable_from_def Observer_new_def recording_def Observer_call_def
        Observer_next_def Observer_complete_def Observer_unsubscribe_def uncaught_def
        console_log_def)
  from returned_teardown_stored_until_unsubscribe [OF run, of "\<lparr>console = [''a'', ''complete'']\<rparr>"] show ?thesis
    by (simp add: console_log_def)
qed

section \<open>\<open>Observable.from\<close>\<close>

text \<open>
  C3. For every list of values and every handler object whose \<open>next\<close> and \<open>complete\<close>
  handlers return normally, \<open>subscribe\<close> on \<open>from\<close> of the list returns normally, and the
  world it returns is the one obtained by running the \<open>next\<close> handler once on each value, in
  the order of the list, and then the \<open>complete\<close> handler once (a handler that was not
  supplied is skipped). The Observer is then unsubscribed and holds the teardown of
  \<open>from\<close>.
\<close>

theorem from_delivers_in_order_then_completes:
  assumes nx: "\<forall>h v w. next_h obs = Some h \<longrightarrow> fst (h v w) = Normal ()"
    and cp: "\<forall>h w. complete_h obs = Some h \<longrightarrow> fst (h w) = Normal ()"
  shows "Observable_subscribe (Observable_from vs) obs s =
     (Normal \<lparr>observer_ref = length (heap s)\<rparr>,
      \<lparr>heap = heap s @
          [\<lparr>handlers = obs, isUnsubscribed = True,
            f_unsubscribe = Some (console_log ''unsubscribed'')\<rparr>],
       world =
         (case complete_h obs of None \<Rightarrow> (\<lambda>w. w) | Some c \<Rightarrow> (\<lambda>w. snd (c w)))
           (foldl (\<lambda>w v. case next_h obs of None \<Rightarrow> w | Some h \<Rightarrow> snd (h v w))
              (world s) vs)\<rparr>)"
proof -
  let ?ob = "Observer_new obs"
  let ?w = "foldl (\<lambda>w v. case next_h obs of None \<Rightarrow> w | Some h \<Rightarrow> snd (h v w)) (world s) vs"
  let ?td = "console_log ''unsubscribed'' :: 'b world_scheme callback"
  have active: "\<not> isUnsubscribed ?ob" and hs: "handlers ?ob = obs"
    by (simp_all add: Observer_new_def)
  have loop: "run_producer (forEach vs CallNext rest) ?ob (world s) = run_producer rest ?ob ?w"
    for rest
    using forEach_next_active [of ?ob vs rest "world s"] active nx
    by (simp add: hs)
  have "fst (c ?w) = Normal ()" if "complete_h obs = Some c" for c
    using cp that by simp
  then have fin: "Observer_complete ?ob ?w =
      (Normal (), ?ob\<lparr>isUnsubscribed := True\<rparr>,
       (case complete_h obs of None \<Rightarrow> (\<lambda>w. w) | Some c \<Rightarrow> (\<lambda>w. snd (c w))) ?w)"
    by (auto simp: Observer_complete_def Observer_unsubscribe_def Observer_new_def
        split: option.split prod.split completion.split)
  have "run_producer (f_subscribe (Observable_from vs)) ?ob (world s) =
      (Normal (Function ?td), ?ob\<lparr>isUnsubscribed := True\<rparr>,
       (case complete_h obs of None \<Rightarrow> (\<lambda>w. w) | Some c \<Rightarrow> (\<lambda>w. snd (c w))) ?w)"
    by (simp add: Observable_from_def loop Observer_call_def fin uncaught_def)
  from subscribe_returned [OF this] show ?thesis
    by (simp add: Observer_new_def)
qed

theorem from_delivers_in_order_then_completes_witness:
  "Observable_subscribe (Observable_from [''a'', ''b'']) recording
     \<lparr>heap = [], world = \<lparr>console = []\<rparr>\<rparr> =
   (Normal \<lparr>observer_ref = 0\<rparr>,
    \<lparr>heap = [\<lparr>handlers = recording, isUnsubscribed = True,
              f_unsubscribe = Some (console_log ''unsubscribed'')\<rparr>],
     world = \<lparr>console = [''a'', ''b'', ''complete'']\<rparr>\<rparr>)"
  using from_delivers_in_order_then_completes [of recording "[''a'', ''b'']" "\<lparr>heap = [], world = \<lparr>console = []\<rparr>\<rparr>"]
  by (simp add: recording_def console_log_def)

section \<open>After termination\<close>

text \<open>
  C4. Let \<open>error\<close> or \<open>complete\<close> have returned normally, or \<open>unsubscribe\<close> have been
  called (on any Observer, a new one included), and let any client code \<open>p\<close> have run on the
  Observer since. Then the Observer is unsubscribed, and \<open>next\<close> on it returns normally
  and leaves Observer and world as they are: the handler is not invoked.
\<close>

theorem next_is_noop_after_termination:
  assumes terminated:
    "Observer_error e ob w = (Normal (), ob1, w1) \<or>
     Observer_complete ob w = (Normal (), ob1, w1) \<or>
     Observer_unsubscribe ob w = (r, ob1, w1)"
  and later: "run_producer p ob1 w2 = (r2, ob2, w3)"
  shows "isUnsubscribed ob2 \<and> Observer_next v ob2 w4 = (Normal (), ob2, w4)"
proof -
  have "isUnsubscribed ob1"
    using terminated
    by (auto dest: error_normal_sets_flag complete_normal_sets_flag unsubscribe_sets_flag)
  then have "isUnsubscribed ob2"
    using later by (rule run_producer_keeps_flag)
  then show ?thesis
    by (simp add: next_when_unsubscribed)
qed

theorem next_is_noop_after_termination_witness:
  "Observer_unsubscribe (Observer_new recording) \<lparr>console = []\<rparr> =
     (Normal (), \<lparr>handlers = recording, isUnsubscribed = True, f_unsubscribe = None\<rparr>,
      \<lparr>console = []\<rparr>)
 \<and> run_producer (Invoke (CallNext ''a'') (uncaught (Return Undefined)))
     \<lparr>handlers = recording, isUnsubscribed = True, f_unsubscribe = None\<rparr> \<lparr>console = []\<rparr> =
     (Normal Undefined, \<lparr>handlers = recording, isUnsubscribed = True, f_unsubscribe = None\<rparr>,
      \<lparr>console = []\<rparr>)
 \<and> Observer_next ''b''
     \<lparr>handlers = recording, isUnsubscribed = True, f_unsubscribe = None\<rparr> \<lparr>console = []\<rparr> =
     (Normal (), \<lparr>handlers = recording, isUnsubscribed = True, f_unsubscribe = None\<rparr>,
      \<lparr>console = []\<rparr>)"
proof -
  let ?ob1 = "\<lparr>handlers = recording, isUnsubscribed = True, f_unsubscribe = None\<rparr>
                :: (string, world) Observer"
  have a: "Observer_unsubscribe (Observer_new recording) \<lparr>console = []\<rparr> =
             (Normal (), ?ob1, \<lparr>console = []\<rparr>)"
    by (simp add: Observer_unsubscribe_def Observer_new_def)
  have b: "run_producer (Invoke (CallNext ''a'') (uncaught (Return Undefined))) ?ob1
             \<lparr>console = []\<rparr> = (Normal Undefined, ?ob1, \<lparr>console = []\<rparr>)"
    by (simp add: Observer_call_def Observer_next_def uncaught_def recording_def)
  from next_is_noop_after_termination [OF disjI2 [OF disjI2 [OF a]] b, of "''b''" "\<lparr>console = []\<rparr>"] a b
  show ?thesis by simp
qed

section \<open>\<open>error\<close> and \<open>complete\<close>\<close>

text \<open>
  C5. On an Observer that is not unsubscribed, with handlers that return normally:
  \<open>error(err)\<close> is the error handler run once on \<open>err\<close>, if it was supplied, followed by
  \<open>unsubscribe()\<close> (flag set, teardown run); with no error handler it is \<open>unsubscribe()\<close>
  alone. \<open>complete()\<close> is the same with the complete handler. On the Observer they leave,
  \<open>error\<close> and \<open>complete\<close> do nothing.
\<close>

theorem error_complete_notify_then_unsubscribe:
  assumes active: "\<not> isUnsubscribed ob"
    and eh: "\<forall>h. error_h (handlers ob) = Some h \<longrightarrow> fst (h err w) = Normal ()"
    and ch: "\<forall>h. complete_h (handlers ob) = Some h \<longrightarrow> fst (h w) = Normal ()"
  shows "Observer_error err ob w =
           Observer_unsubscribe ob
             (case error_h (handlers ob) of None \<Rightarrow> w | Some h \<Rightarrow> snd (h err w))
       \<and> Observer_complete ob w =
           Observer_unsubscribe ob
             (case complete_h (handlers ob) of None \<Rightarrow> w | Some h \<Rightarrow> snd (h w))
       \<and> fst (snd (Observer_error err ob w)) = ob\<lparr>isUnsubscribed := True\<rparr>
       \<and> fst (snd (Observer_complete ob w)) = ob\<lparr>isUnsubscribed := True\<rparr>
       \<and> Observer_error err2 (ob\<lparr>isUnsubscribed := True\<rparr>) w2 =
           (Normal (), ob\<lparr>isUnsubscribed := True\<rparr>, w2)
       \<and> Observer_complete (ob\<lparr>isUnsubscribed := True\<rparr>) w2 =
           (Normal (), ob\<lparr>isUnsubscribed := True\<rparr>, w2)"
proof -
  have e: "Observer_error err ob w =
           Observer_unsubscribe ob
             (case error_h (handlers ob) of None \<Rightarrow> w | Some h \<Rightarrow> snd (h err w))"
    using active eh
    by (auto simp: Observer_error_def split: option.splits prod.splits completion.splits)
  have c: "Observer_complete ob w =
           Observer_unsubscribe ob
             (case complete_h (handlers ob) of None \<Rightarrow> w | Some h \<Rightarrow> snd (h w))"
    using active ch
    by (auto simp: Observer_complete_def split: option.splits prod.splits completion.splits)
  have u: "fst (snd (Observer_unsubscribe ob w')) = ob\<lparr>isUnsubscribed := True\<rparr>" for w'
    by (simp add: unsubscribe_result split: option.split)
  show ?thesis
    by (simp add: e c u error_when_unsubscribed complete_when_unsubscribed)
qed

theorem error_complete_notify_then_unsubscribe_witness:
  "Observer_error (Error ''x'')
     \<lparr>handlers = recording, isUnsubscribed = False,
      f_unsubscribe = Some (console_log ''unsubscribed'')\<rparr>
     \<lparr>console = []\<rparr> =
   (Normal (),
    \<lparr>handlers = recording, isUnsubscribed = True,
      f_unsubscribe = Some (console_log ''unsubscribed'')\<rparr>,
    \<lparr>console = [''x'', ''unsubscribed'']\<rparr>)
 \<and> Observer_complete
     \<lparr>handlers = recording, isUnsubscribed = False,
      f_unsubscribe = Some (console_log ''unsubscribed'')\<rparr>
     \<lparr>console = []\<rparr> =
   (Normal (),
    \<lparr>handlers = recording, isUnsubscribed = True,
      f_unsubscribe = Some (console_log ''unsubscribed'')\<rparr>,
    \<lparr>console = [''complete'', ''unsubscribed'']\<rparr>)"
  using error_complete_notify_then_unsubscribe [of "\<lparr>handlers = recording, isUnsubscribed = False,
      f_unsubscribe = Some (console_log ''unsubscribed'')\<rparr>" "Error ''x''" "\<lparr>console = []\<rparr>"]
  by (simp add: recording_def console_log_def Observer_unsubscribe_def)

section \<open>A producer that throws\<close>

text \<open>
  C6. When the producer throws, \<open>subscribe\<close> throws the same value; the world it leaves is
  the world the producer left when it threw, so the core invoked no handler on account of
  the throw, and no Observer is kept. A producer that throws at once leaves the whole state
  as it was.
\<close>

theorem producer_throw_propagates:
  assumes "run_producer (f_subscribe this) (Observer_new obs) (world s) = (Thrown e, ob1, w1)"
  shows "Observable_subscribe this obs s = (Thrown e, s\<lparr>world := w1\<rparr>)
       \<and> Observable_subscribe \<lparr>f_subscribe = Throw e\<rparr> obs s = (Thrown e, s)"
  using subscribe_threw [OF assms]
  by (simp add: Observable_subscribe_def)

theorem producer_throw_propagates_witness:
  "Observable_subscribe
     \<lparr>f_subscribe = Invoke (CallNext ''a'') (uncaught (Throw (Error ''boom'')))\<rparr> recording
     \<lparr>heap = [], world = \<lparr>console = []\<rparr>\<rparr> =
   (Thrown (Error ''boom''), \<lparr>heap = [], world = \<lparr>console = [''a'']\<rparr>\<rparr>)"
proof -
  have run: "run_producer
      (f_subscribe \<lparr>f_subscribe = Invoke (CallNext ''a'') (uncaught (Throw (Error ''boom'')))\<rparr>)
      (Observer_new recording) (world \<lparr>heap = [], world = \<lparr>console = []\<rparr>\<rparr>) =
    (Thrown (Error ''boom''), Observer_new recording, \<lparr>console = [''a'']\<rparr>)"
    by (simp add: Observer_new_def recording_def Observer_call_def Observer_next_def
        uncaught_def console_log_def)
  from producer_throw_propagates [OF run] show ?thesis
    by simp
qed

section \<open>A producer that returns no function\<close>

text \<open>
  C7. When the producer returns \<open>undefined\<close> or another value that is not a function,
  \<open>subscribe\<close> leaves the teardown slot of the Observer unset, and a later
  \<open>unsubscribe()\<close> through the handle sets the flag, returns normally and leaves the world
  as it is.
\<close>

theorem non_function_return_registers_nothing:
  assumes "run_producer (f_subscribe this) (Observer_new obs) (world s) = (Normal x, ob1, w1)"
    and "x = Undefined \<or> x = NonFunction"
  shows "Observable_subscribe this obs s =
           (Normal \<lparr>observer_ref = length (heap s)\<rparr>,
            \<lparr>heap = heap s @ [ob1\<lparr>f_unsubscribe := None\<rparr>], world = w1\<rparr>)
       \<and> Subscription_unsubscribe \<lparr>observer_ref = length (heap s)\<rparr>
           \<lparr>heap = heap s @ [ob1\<lparr>f_unsubscribe := None\<rparr>], world = w2\<rparr> =
           Some (Normal (),
                 \<lparr>heap = heap s @ [ob1\<lparr>isUnsubscribed := True, f_unsubscribe := None\<rparr>],
                  world = w2\<rparr>)"
  using subscribe_returned [OF assms(1)] assms(2)
  by (auto simp: handle_unsubscribe_last unsubscribe_result)

theorem non_function_return_registers_nothing_witness:
  "Observable_subscribe (emit_one NonFunction) recording
     \<lparr>heap = [], world = \<lparr>console = []\<rparr>\<rparr> =
   (Normal \<lparr>observer_ref = 0\<rparr>,
    \<lparr>heap = [\<lparr>handlers = recording, isUnsubscribed = False, f_unsubscribe = None\<rparr>],
     world = \<lparr>console = [''a'']\<rparr>\<rparr>)
 \<and> Subscription_unsubscribe \<lparr>observer_ref = 0\<rparr>
    \<lparr>heap = [\<lparr>handlers = recording, isUnsubscribed = False, f_unsubscribe = None\<rparr>],
     world = \<lparr>console = [''a'']\<rparr>\<rparr> =
   Some (Normal (),
    \<lparr>heap = [\<lparr>handlers = recording, isUnsubscribed = True, f_unsubscribe = None\<rparr>],
     world = \<lparr>console = [''a'']\<rparr>\<rparr>)"
proof -
  have run: "run_producer (f_subscribe (emit_one NonFunction)) (Observer_new recording)
      (world \<lparr>heap = [], world = \<lparr>console = []\<rparr>\<rparr>) =
    (Normal NonFunction, Observer_new recording, \<lparr>console = [''a'']\<rparr>)"
    by (simp add: emit_one_def Observer_new_def recording_def Observer_call_def
        Observer_next_def uncaught_def console_log_def)
  from non_function_return_registers_nothing [OF run, of "\<lparr>console = [''a'']\<rparr>"] show ?thesis
    by (simp add: Observer_new_def)
qed

section \<open>Two subscriptions\<close>

text \<open>
  C8. Two calls of \<open>subscribe\<close> on one Observable return handles of two different
  Observers. The second call leaves the Observer of the first as it was, and its own
  Observer is what its own run made of a new Observer. \<open>unsubscribe()\<close> through either
  handle leaves the Observer of the other handle as it was.
\<close>

theorem subscriptions_do_not_share_observers:
  assumes first: "Observable_subscribe this obs1 s0 = (Normal sub1, s1)"
    and second: "Observable_subscribe this obs2 s1 = (Normal sub2, s2)"
  shows "observer_ref sub1 \<noteq> observer_ref sub2
       \<and> heap s2 ! observer_ref sub1 = heap s1 ! observer_ref sub1
       \<and> (\<exists>x ob w.
             run_producer (f_subscribe this) (Observer_new obs2) (world s1) = (Normal x, ob, w)
           \<and> heap s2 ! observer_ref sub2 =
               ob\<lparr>f_unsubscribe := (case x of Function f \<Rightarrow> Some f | _ \<Rightarrow> None)\<rparr>)
       \<and> (\<exists>r s3. Subscription_unsubscribe sub1 s2 = Some (r, s3)
           \<and> heap s3 ! observer_ref sub2 = heap s2 ! observer_ref sub2)
       \<and> (\<exists>r s3. Subscription_unsubscribe sub2 s2 = Some (r, s3)
           \<and> heap s3 ! observer_ref sub1 = heap s2 ! observer_ref sub1)"
proof -
  from subscribe_allocates [OF first] obtain ob1 where
    r1: "observer_ref sub1 = length (heap s0)" and h1: "heap s1 = heap s0 @ [ob1]"
    by auto
  from subscribe_allocates [OF second] obtain x ob w where
    run: "run_producer (f_subscribe this) (Observer_new obs2) (world s1) = (Normal x, ob, w)"
    and r2: "observer_ref sub2 = length (heap s1)"
    and h2: "heap s2 =
      heap s1 @ [ob\<lparr>f_unsubscribe := (case x of Function f \<Rightarrow> Some f | _ \<Rightarrow> None)\<rparr>]"
    by auto
  have distinct: "observer_ref sub1 \<noteq> observer_ref sub2"
    using r1 r2 h1 by simp
  have kept: "heap s2 ! observer_ref sub1 = heap s1 ! observer_ref sub1"
    using r1 h1 h2 by (simp add: nth_append)
  have fresh: "heap s2 ! observer_ref sub2 =
      ob\<lparr>f_unsubscribe := (case x of Function f \<Rightarrow> Some f | _ \<Rightarrow> None)\<rparr>"
    using r2 h2 by simp
  have "observer_ref sub1 < length (heap s2)"
    using r1 h1 h2 by simp
  from handle_unsubscribe_frame [OF this] distinct
  have u1: "\<exists>r s3. Subscription_unsubscribe sub1 s2 = Some (r, s3)
           \<and> heap s3 ! observer_ref sub2 = heap s2 ! observer_ref sub2"
    by metis
  have "observer_ref sub2 < length (heap s2)"
    using r2 h2 by simp
  from handle_unsubscribe_frame [OF this] distinct
  have u2: "\<exists>r s3. Subscription_unsubscribe sub2 s2 = Some (r, s3)
           \<and> heap s3 ! observer_ref sub1 = heap s2 ! observer_ref sub1"
    by metis
  from distinct kept run fresh u1 u2 show ?thesis
    by blast
qed

theorem subscriptions_do_not_share_observers_witness:
  "Observable_subscribe (emit_one (Function (console_log ''unsubscribed''))) recording
     \<lparr>heap = [], world = \<lparr>console = []\<rparr>\<rparr> =
   (Normal \<lparr>observer_ref = 0\<rparr>,
    \<lparr>heap = [\<lparr>handlers = recording, isUnsubscribed = False,
              f_unsubscribe = Some (console_log ''unsubscribed'')\<rparr>],
     world = \<lparr>console = [''a'']\<rparr>\<rparr>)
 \<and> Observable_subscribe (emit_one (Function (console_log ''unsubscribed''))) no_handlers
    \<lparr>heap = [\<lparr>handlers = recording, isUnsubscribed = False,
              f_unsubscribe = Some (console_log ''unsubscribed'')\<rparr>],
     world = \<lparr>console = [''a'']\<rparr>\<rparr> =
   (Normal \<lparr>observer_ref = 1\<rparr>,
    \<lparr>heap = [\<lparr>handlers = recording, isUnsubscribed = False,
              f_unsubscribe = Some (console_log ''unsubscribed'')\<rparr>,
             \<lparr>handlers = no_handlers, isUnsubscribed = False,
              f_unsubscribe = Some (console_log ''unsubscribed'')\<rparr>],
     world = \<lparr>console = [''a'']\<rparr>\<rparr>)
 \<and> Subscription_unsubscribe \<lparr>observer_ref = 0\<rparr>
    \<lparr>heap = [\<lparr>handlers = recording, isUnsubscribed = False,
              f_unsubscribe = Some (console_log ''unsubscribed'')\<rparr>,
             \<lparr>handlers = no_handlers, isUnsubscribed = False,
              f_unsubscribe = Some (console_log ''unsubscribed'')\<rparr>],
     world = \<lparr>console = [''a'']\<rparr>\<rparr> =
   Some (Normal (),
    \<lparr>heap = [\<lparr>handlers = recording, isUnsubscribed = True,
              f_unsubscribe = Some (console_log ''unsubscribed'')\<rparr>,
             \<lparr>handlers = no_handlers, isUnsubscribed = False,
              f_unsubscribe = Some (console_log ''unsubscribed'')\<rparr>],
     world = \<lparr>console = [''a'', ''unsubscribed'']\<rparr>\<rparr>)"
proof -
  let ?obs = "emit_one (Function (console_log ''unsubscribed'')) :: (string, world) Observable"
  let ?td = "Some (console_log ''unsubscribed'') :: world callback option"
  let ?s0 = "\<lparr>heap = [], world = \<lparr>console = []\<rparr>\<rparr> :: (string, world) state"
  let ?s1 = "\<lparr>heap = [\<lparr>handlers = recording, isUnsubscribed = False, f_unsubscribe = ?td\<rparr>],
     world = \<lparr>console = [''a'']\<rparr>\<rparr> :: (string, world) state"
  let ?s2 = "\<lparr>heap = [\<lparr>handlers = recording, isUnsubscribed = False, f_unsubscribe = ?td\<rparr>,
             \<lparr>handlers = no_handlers, isUnsubscribed = False, f_unsubscribe = ?td\<rparr>],
     world = \<lparr>console = [''a'']\<rparr>\<rparr> :: (string, world) state"
  have a: "Observable_subscribe ?obs recording ?s0 = (Normal \<lparr>observer_ref = 0\<rparr>, ?s1)"
    by (simp add: Observable_subscribe_def emit_one_def Observer_new_def recording_def
        Observer_call_def Observer_next_def Observer_setUnsubscribe_def uncaught_def
        console_log_def)
  have b: "Observable_subscribe ?obs no_handlers ?s1 = (Normal \<lparr>observer_ref = 1\<rparr>, ?s2)"
    by (simp add: Observable_subscribe_def emit_one_def Observer_new_def no_handlers_def
        Observer_call_def Observer_next_def Observer_setUnsubscribe_def uncaught_def)
  have c: "Subscription_unsubscribe \<lparr>observer_ref = 0\<rparr> ?s2 =
    Some (Normal (),
     \<lparr>heap = [\<lparr>handlers = recording, isUnsubscribed = True, f_unsubscribe = ?td\<rparr>,
             \<lparr>handlers = no_handlers, isUnsubscribed = False, f_unsubscribe = ?td\<rparr>],
     world = \<lparr>console = [''a'', ''unsubscribed'']\<rparr>\<rparr>)"
    by (simp add: Subscription_unsubscribe_def Observer_unsubscribe_def console_log_def)
  from subscriptions_do_not_share_observers [OF a b] a b c show ?thesis
    by simp
qed

section \<open>Frame of \<open>next\<close> and of \<open>setUnsubscribe\<close>\<close>

text \<open>
  On handlers that act on the world only, the methods of \<open>ObserverC\<close> are the methods of
  \<open>Observer\<close>.
\<close>

lemma run_of_callback:
  "run_closure perform (of_callback f) ob w =
     Some (case fst (f w) of Normal _ \<Rightarrow> Normal Undefined | Thrown e \<Rightarrow> Thrown e, ob, snd (f w))"
  by (simp add: of_callback_def split: prod.split completion.split)

lemma unsubscribeC_agrees:
  "ObserverC_unsubscribe (closure_observer ob) w =
     (case Observer_unsubscribe ob w of (r, ob', w') \<Rightarrow> (r, closure_observer ob', w'))"
  by (simp add: ObserverC_unsubscribe_def Observer_unsubscribe_def closure_observer_def Let_def
      split: option.split prod.split)

lemma call_agrees:
  "ObserverC_call (Suc depth) c (closure_observer ob) w =
     Some (case Observer_call c ob w of (r, ob', w') \<Rightarrow> (r, closure_observer ob', w'))"
proof (cases c)
  case (CallNext v)
  then show ?thesis
    by (auto simp: ObserverC_next_def Observer_call_def Observer_next_def run_of_callback
        closure_observer_def closures_of_def split: option.split prod.split completion.split)
next
  case (CallError e)
  then show ?thesis
    using unsubscribeC_agrees [of ob]
    by (auto simp: ObserverC_error_def Observer_call_def Observer_error_def run_of_callback
        closure_observer_def closures_of_def split: option.split prod.split completion.split)
next
  case CallComplete
  then show ?thesis
    using unsubscribeC_agrees [of ob]
    by (auto simp: ObserverC_complete_def Observer_call_def Observer_complete_def run_of_callback
        closure_observer_def closures_of_def split: option.split prod.split completion.split)
next
  case CallUnsubscribe
  then show ?thesis
    by (simp add: Observer_call_def unsubscribeC_agrees)
next
  case (CallSetUnsubscribe f)
  then show ?thesis
    by (simp add: Observer_call_def ObserverC_setUnsubscribe_def Observer_setUnsubscribe_def
        closure_observer_def)
qed









text \<open>
  C10. \<open>setUnsubscribe\<close> stores its argument in the teardown slot, whatever the slot held
  and whether or not the Observer is unsubscribed (an unset argument clears the slot); it
  changes no other field, completes normally, and leaves the world as it was: nothing is
  invoked at registration.
\<close>

theorem setUnsubscribe_overwrites_and_never_invokes:
  "Observer_setUnsubscribe fn ob w =
     (Normal (), \<lparr>handlers = handlers ob, isUnsubscribed = isUnsubscribed ob,
                  f_unsubscribe = fn\<rparr>, w)"
  by (simp add: Observer_setUnsubscribe_def)

end
